theory Spec2Isabelle
  imports Complex_Main "HOL-Library.Multiset"
begin

section \<open>Python values\<close>

text \<open>
  The scripts under \<^verbatim>\<open>experiments/\<close> read JSON documents, parse pool names and compute
  annualised yields with Python floats. The embedding keeps the exceptions of the
  source as values of a sum type and the control flow of every function as it is written.

  Conventions of the embedding:
  \<^item> a Python \<^verbatim>\<open>str\<close> is a \<^typ>\<open>string\<close> of ASCII characters; for such strings
    \<^verbatim>\<open>upper\<close>, \<^verbatim>\<open>strip\<close> and \<^verbatim>\<open>split\<close> below are the ones of Python;
  \<^item> a Python \<^verbatim>\<open>float\<close> is a \<open>pyfloat\<close>: a finite value, carried as an exact real
    number, or one of the three non-finite values. Rounding to 53 bits, overflow of a
    finite operation to infinity and the sign of zero are not represented;
  \<^item> the literal \<^verbatim>\<open>0\<close> that the calculators return in their guard branches is
    \<open>Fin 0\<close> (in Python \<^verbatim>\<open>0 == 0.0\<close>).
\<close>

datatype error =
  KeyError | ValueError | TypeError | OverflowError | ZeroDivisionError
  | IndexError | AttributeError

datatype pyfloat = Fin real | PInf | NInf | NaN

definition ebind :: "error + 'a \<Rightarrow> ('a \<Rightarrow> error + 'b) \<Rightarrow> error + 'b" where
  "ebind m f = (case m of Inl e \<Rightarrow> Inl e | Inr x \<Rightarrow> f x)"

subsection \<open>Float arithmetic and comparison\<close>

definition inf_signed :: "real \<Rightarrow> pyfloat" where
  "inf_signed s = (if 0 < s then PInf else if s < 0 then NInf else NaN)"


fun py_mul :: "pyfloat \<Rightarrow> pyfloat \<Rightarrow> pyfloat" where
  "py_mul (Fin a) (Fin b) = Fin (a * b)"
| "py_mul NaN _ = NaN"
| "py_mul _ NaN = NaN"
| "py_mul PInf (Fin b) = inf_signed b"
| "py_mul NInf (Fin b) = inf_signed (- b)"
| "py_mul (Fin a) PInf = inf_signed a"
| "py_mul (Fin a) NInf = inf_signed (- a)"
| "py_mul PInf PInf = PInf"
| "py_mul NInf NInf = PInf"
| "py_mul PInf NInf = NInf"
| "py_mul NInf PInf = NInf"

text \<open>Division raises \<^verbatim>\<open>ZeroDivisionError\<close> for a zero divisor, whatever the dividend.\<close>

fun py_div :: "pyfloat \<Rightarrow> pyfloat \<Rightarrow> error + pyfloat" where
  "py_div x (Fin b) =
     (if b = 0 then Inl ZeroDivisionError
      else Inr (case x of Fin a \<Rightarrow> Fin (a / b) | PInf \<Rightarrow> inf_signed b
                | NInf \<Rightarrow> inf_signed (- b) | NaN \<Rightarrow> NaN))"
| "py_div NaN _ = Inr NaN"
| "py_div _ NaN = Inr NaN"
| "py_div (Fin a) _ = Inr (Fin 0)"
| "py_div _ _ = Inr NaN"

fun py_lt :: "pyfloat \<Rightarrow> pyfloat \<Rightarrow> bool" where
  "py_lt (Fin a) (Fin b) = (a < b)"
| "py_lt NaN _ = False"
| "py_lt _ NaN = False"
| "py_lt _ NInf = False"
| "py_lt PInf _ = False"
| "py_lt _ _ = True"

definition py_gt :: "pyfloat \<Rightarrow> pyfloat \<Rightarrow> bool" where
  "py_gt x y = py_lt y x"

definition py_eq :: "pyfloat \<Rightarrow> pyfloat \<Rightarrow> bool" where
  "py_eq x y = (x \<noteq> NaN \<and> x = y)"

subsection \<open>String methods\<close>

text \<open>
  \<^verbatim>\<open>str.strip()\<close> and \<^verbatim>\<open>str.split()\<close> treat the ten ASCII characters below as white
  space; \<^verbatim>\<open>float(s)\<close> and \<^verbatim>\<open>int(s)\<close> strip only the six of C's \<^verbatim>\<open>isspace\<close>.
\<close>

definition is_space :: "char \<Rightarrow> bool" where
  "is_space c = (c \<in> set [CHR 0x09, CHR 0x0A, CHR 0x0B, CHR 0x0C, CHR 0x0D,
                            CHR 0x1C, CHR 0x1D, CHR 0x1E, CHR 0x1F, CHR '' ''])"

definition is_cspace :: "char \<Rightarrow> bool" where
  "is_cspace c = (c \<in> set [CHR 0x09, CHR 0x0A, CHR 0x0B, CHR 0x0C, CHR 0x0D, CHR '' ''])"

definition upper_char :: "char \<Rightarrow> char" where
  "upper_char c =
     (case map_of (zip ''abcdefghijklmnopqrstuvwxyz'' ''ABCDEFGHIJKLMNOPQRSTUVWXYZ'') c of
        Some d \<Rightarrow> d | None \<Rightarrow> c)"

definition upper :: "string \<Rightarrow> string" where
  "upper s = map upper_char s"

definition py_strip :: "string \<Rightarrow> string" where
  "py_strip s = rev (dropWhile is_space (rev (dropWhile is_space s)))"

text \<open>\<^verbatim>\<open>s.split(c)\<close>: the pieces between the occurrences of \<open>c\<close>, always at least one.\<close>

fun py_split_on :: "char \<Rightarrow> string \<Rightarrow> string list" where
  "py_split_on c [] = [[]]"
| "py_split_on c (x # xs) =
     (if x = c then [] # py_split_on c xs
      else (case py_split_on c xs of p # ps \<Rightarrow> (x # p) # ps | [] \<Rightarrow> [[x]]))"

text \<open>\<^verbatim>\<open>s.split()\<close>: the maximal runs of characters that are not white space.\<close>

function py_split_ws :: "string \<Rightarrow> string list" where
  "py_split_ws [] = []"
| "py_split_ws (x # xs) =
     (if is_space x then py_split_ws xs
      else takeWhile (\<lambda>c. \<not> is_space c) (x # xs)
           # py_split_ws (dropWhile (\<lambda>c. \<not> is_space c) xs))"
  by pat_completeness auto
termination
  by (relation "measure length") (auto simp: le_imp_less_Suc length_dropWhile_le)

text \<open>\<^verbatim>\<open>s.replace('%', '')\<close> and \<^verbatim>\<open>s.rstrip('%')\<close>.\<close>

definition replace_percent :: "string \<Rightarrow> string" where
  "replace_percent s = filter (\<lambda>c. c \<noteq> CHR ''%'') s"


subsection \<open>The conversion \<^verbatim>\<open>float(s)\<close> of a string\<close>

text \<open>
  The accepted strings are, between optional white space, an optional sign followed by
  \<^verbatim>\<open>inf\<close>, \<^verbatim>\<open>infinity\<close> or \<^verbatim>\<open>nan\<close> in any case, or by a decimal numeral with
  at least one digit, an optional point and an optional exponent. A single underscore is
  allowed between two digits. Every other string raises \<^verbatim>\<open>ValueError\<close>.
\<close>

definition is_digit :: "char \<Rightarrow> bool" where
  "is_digit c = (c \<in> set ''0123456789'')"

definition digit_val :: "char \<Rightarrow> nat" where
  "digit_val c = of_char c - 48"

definition digits_val :: "string \<Rightarrow> nat" where
  "digits_val ds = foldl (\<lambda>n c. 10 * n + digit_val c) 0 ds"

definition cstrip :: "string \<Rightarrow> string" where
  "cstrip s = rev (dropWhile is_cspace (rev (dropWhile is_cspace s)))"

fun del_underscores :: "char option \<Rightarrow> string \<Rightarrow> string option" where
  "del_underscores prev [] = (if prev = Some CHR ''_'' then None else Some [])"
| "del_underscores prev (c # cs) =
     (if c = CHR ''_'' then
        (if (case prev of Some p \<Rightarrow> is_digit p | None \<Rightarrow> False)
         then del_underscores (Some c) cs else None)
      else if prev = Some CHR ''_'' \<and> \<not> is_digit c then None
      else map_option ((#) c) (del_underscores (Some c) cs))"

definition split_sign :: "string \<Rightarrow> bool \<times> string" where
  "split_sign s =
     (case s of
        [] \<Rightarrow> (False, [])
      | c # cs \<Rightarrow> if c = CHR ''-'' then (True, cs)
                  else if c = CHR ''+'' then (False, cs) else (False, s))"

definition scale10 :: "nat \<Rightarrow> int \<Rightarrow> real" where
  "scale10 n k = (if 0 \<le> k then real n * 10 ^ nat k else real n / 10 ^ nat (- k))"

definition parse_exponent :: "string \<Rightarrow> int option" where
  "parse_exponent r =
     (case r of
        [] \<Rightarrow> Some 0
      | c # cs \<Rightarrow>
          if c = CHR ''e'' \<or> c = CHR ''E'' then
            (let (neg, ds) = split_sign cs in
             if ds \<noteq> [] \<and> list_all is_digit ds
             then Some (if neg then - int (digits_val ds) else int (digits_val ds))
             else None)
          else None)"

definition parse_number :: "string \<Rightarrow> real option" where
  "parse_number s =
     (let ip = takeWhile is_digit s; r1 = dropWhile is_digit s;
          (fp, r2) = (case r1 of
                        [] \<Rightarrow> ([], [])
                      | c # cs \<Rightarrow> if c = CHR ''.''
                                  then (takeWhile is_digit cs, dropWhile is_digit cs)
                                  else ([], r1))
      in if ip @ fp = [] then None
         else (case parse_exponent r2 of
                 None \<Rightarrow> None
               | Some e \<Rightarrow> Some (scale10 (digits_val (ip @ fp)) (e - int (length fp)))))"

definition py_float_str :: "string \<Rightarrow> error + pyfloat" where
  "py_float_str s =
     (case del_underscores None (cstrip s) of
        None \<Rightarrow> Inl ValueError
      | Some t \<Rightarrow>
          (let (neg, body) = split_sign t in
           if upper body = ''INF'' \<or> upper body = ''INFINITY''
           then Inr (if neg then NInf else PInf)
           else if upper body = ''NAN'' then Inr NaN
           else (case parse_number body of
                   None \<Rightarrow> Inl ValueError
                 | Some r \<Rightarrow> Inr (Fin (if neg then - r else r)))))"

subsection \<open>Decoded JSON\<close>

text \<open>
  What \<^verbatim>\<open>response.json()\<close> and \<^verbatim>\<open>json.load\<close> return. A dictionary is an association
  list read with \<open>map_of\<close>.
\<close>

datatype json =
  JNull | JBool bool | JInt int | JFloat pyfloat | JStr string
  | JList "json list" | JDict "(string \<times> json) list"

text \<open>\<^verbatim>\<open>x[key]\<close> for a string key.\<close>

fun subscript :: "json \<Rightarrow> string \<Rightarrow> error + json" where
  "subscript (JDict d) key = (case map_of d key of None \<Rightarrow> Inl KeyError | Some v \<Rightarrow> Inr v)"
| "subscript _ key = Inl TypeError"

text \<open>
  \<^verbatim>\<open>float(x)\<close>. An integer is converted when it rounds to a finite double, that is
  when its magnitude is below \<open>2^1024 - 2^970\<close>; a larger one raises
  \<^verbatim>\<open>OverflowError\<close>.
\<close>

fun py_float :: "json \<Rightarrow> error + pyfloat" where
  "py_float (JStr s) = py_float_str s"
| "py_float (JFloat x) = Inr x"
| "py_float (JInt n) =
     (if 2 ^ 1024 - 2 ^ 970 \<le> \<bar>n\<bar> then Inl OverflowError else Inr (Fin (real_of_int n)))"
| "py_float (JBool b) = Inr (Fin (if b then 1 else 0))"
| "py_float _ = Inl TypeError"

section \<open>Token allowlist, pool name parser and eligibility filter\<close>

text \<open>\<^verbatim>\<open>analyze_pools_revised.py\<close> and \<^verbatim>\<open>analyze_pools_with_30d_data.py\<close> define these alike.\<close>

definition STABLECOINS :: "string set" where
  "STABLECOINS = {''USDT'', ''USDC'', ''DAI'', ''BUSD'', ''FRAX'', ''USDD'', ''TUSD'', ''USDP'',
    ''USDE'', ''USDS'', ''PYUSD'', ''RLUSD'', ''USDG'', ''USYC'', ''USDF'',
    ''BSC-USD'', ''SUSDS'', ''SUSDE'', ''BFUSD'', ''USD1'', ''USDT0'',
    ''SYRUPUSDC'', ''GUSD'', ''LUSD'', ''SUSD'', ''FDUSD'', ''CUSD''}"

definition MAJOR_COINS :: "string set" where
  "MAJOR_COINS = {''BTC'', ''WBTC'', ''CBBTC'', ''FBTC'', ''TBTC'', ''HBTC'', ''RENBTC'',
    ''ETH'', ''WETH'', ''STETH'', ''WSTETH'', ''RETH'', ''CBETH'', ''WBETH'',
    ''WEETH'', ''BETH'', ''SFRXETH'', ''FRXETH'', ''EETH'', ''RSETH''}"

text \<open>
  The snapshot file \<^verbatim>\<open>top_100_coins_symbols.json\<close> is not part of the sources: its
  content is the parameter \<open>file\<close>, \<open>None\<close> when the file does not exist.
\<close>

definition load_top_100_symbols :: "string list option \<Rightarrow> string set" where
  "load_top_100_symbols file = (case file of None \<Rightarrow> {} | Some symbols \<Rightarrow> set (map upper symbols))"

definition is_allowed_token :: "string list option \<Rightarrow> string \<Rightarrow> bool" where
  "is_allowed_token file symbol =
     (let symbol = upper symbol
      in symbol \<in> STABLECOINS \<or> symbol \<in> MAJOR_COINS \<or> symbol \<in> load_top_100_symbols file)"

definition parse_pool_name ::
  "string \<Rightarrow> error + (string option \<times> string option \<times> pyfloat option)" where
  "parse_pool_name pool_name =
     (let parts = py_split_on CHR ''/'' pool_name in
      if length parts < 2 then Inr (None, None, None)
      else
        let token1 = upper (py_strip (parts ! 0));
            token2_and_fee = py_split_ws (py_strip (parts ! 1))
        in if length token2_and_fee < 2 then Inr (None, None, None)
           else
             let token2 = upper (token2_and_fee ! 0);
                 fee_str = replace_percent (token2_and_fee ! 1)
             in (case py_float_str fee_str of
                   Inr fee_tier \<Rightarrow> Inr (Some token1, Some token2, Some fee_tier)
                 | Inl e \<Rightarrow> if e = ValueError then Inr (Some token1, Some token2, None)
                            else Inl e))"

text \<open>\<^verbatim>\<open>not token\<close> holds for \<^verbatim>\<open>None\<close> and for the empty string.\<close>

definition falsy_token :: "string option \<Rightarrow> bool" where
  "falsy_token t = (case t of None \<Rightarrow> True | Some s \<Rightarrow> s = [])"

definition is_allowed_pool :: "string list option \<Rightarrow> string \<Rightarrow> error + bool" where
  "is_allowed_pool file pool_name =
     ebind (parse_pool_name pool_name) (\<lambda>(token1, token2, _).
       if falsy_token token1 \<or> falsy_token token2 then Inr False
       else Inr (is_allowed_token file (the token1) \<and> is_allowed_token file (the token2)))"

section \<open>Yield calculators\<close>

text \<open>
  \<^verbatim>\<open>try: ... except (E1, ..., En): return d\<close>: an exception among the handled ones
  becomes the default, any other one propagates.
\<close>

definition try_except :: "error list \<Rightarrow> error + 'a \<Rightarrow> 'a \<Rightarrow> error + 'a" where
  "try_except handled body dflt =
     (case body of Inl e \<Rightarrow> if e \<in> set handled then Inr dflt else Inl e | Inr v \<Rightarrow> Inr v)"

text \<open>
  The expressions \<^verbatim>\<open>float(pool['attributes']['volume_usd']['h24'])\<close> and
  \<^verbatim>\<open>float(pool['attributes']['reserve_in_usd'])\<close>.
\<close>

definition float_volume_h24 :: "json \<Rightarrow> error + pyfloat" where
  "float_volume_h24 pool =
     ebind (subscript pool ''attributes'') (\<lambda>a.
     ebind (subscript a ''volume_usd'') (\<lambda>vu.
     ebind (subscript vu ''h24'') py_float))"

definition float_reserve_in_usd :: "json \<Rightarrow> error + pyfloat" where
  "float_reserve_in_usd pool =
     ebind (subscript pool ''attributes'') (\<lambda>a.
     ebind (subscript a ''reserve_in_usd'') py_float)"

text \<open>
  \<^verbatim>\<open>calculate_apy_24h(pool, fee_tier)\<close>, the same text in
  \<^verbatim>\<open>analyze_pools_revised.py\<close> and \<^verbatim>\<open>analyze_pools_with_30d_data.py\<close>.
\<close>

definition calculate_apy_24h :: "json \<Rightarrow> pyfloat option \<Rightarrow> error + pyfloat" where
  "calculate_apy_24h pool fee_tier =
     try_except [KeyError, ValueError, TypeError]
       (ebind (float_volume_h24 pool) (\<lambda>volume_24h.
        ebind (float_reserve_in_usd pool) (\<lambda>reserve_usd.
          if py_eq reserve_usd (Fin 0) \<or> fee_tier = None then Inr (Fin 0)
          else
            ebind (py_div (the fee_tier) (Fin 100)) (\<lambda>rate.
            let fees_24h = py_mul volume_24h rate in
            ebind (py_div fees_24h reserve_usd) (\<lambda>q.
            Inr (py_mul (py_mul q (Fin 365)) (Fin 100)))))))
       (Fin 0)"


text \<open>
  \<^verbatim>\<open>calculate_apy_30d(volume_30d, avg_tvl_30d, fee_tier)\<close> of
  \<^verbatim>\<open>analyze_pools_with_30d_data.py\<close>. Each argument may be \<^verbatim>\<open>None\<close>;
  \<^verbatim>\<open>None == 0\<close> is false and a division by \<^verbatim>\<open>None\<close> raises \<^verbatim>\<open>TypeError\<close>.
\<close>

definition calculate_apy_30d ::
  "pyfloat option \<Rightarrow> pyfloat option \<Rightarrow> pyfloat option \<Rightarrow> error + pyfloat" where
  "calculate_apy_30d volume_30d avg_tvl_30d fee_tier =
     try_except [ValueError, TypeError]
       (if (case avg_tvl_30d of None \<Rightarrow> False | Some t \<Rightarrow> py_eq t (Fin 0))
           \<or> fee_tier = None \<or> volume_30d = None
        then Inr (Fin 0)
        else
          ebind (py_div (the fee_tier) (Fin 100)) (\<lambda>rate.
          let total_fees_30d = py_mul (the volume_30d) rate in
          ebind (case avg_tvl_30d of None \<Rightarrow> Inl TypeError
                 | Some t \<Rightarrow> py_div total_fees_30d t) (\<lambda>q.
          ebind (py_div (Fin 365) (Fin 30)) (\<lambda>w.
          Inr (py_mul (py_mul q w) (Fin 100))))))
       (Fin 0)"

section \<open>Historical day data\<close>















section \<open>Ranking pipeline\<close>

subsection \<open>The conversion \<^verbatim>\<open>int(x)\<close>\<close>



subsection \<open>The loop body of \<^verbatim>\<open>analyze_pools\<close> in \<^verbatim>\<open>analyze_pools_revised.py\<close>\<close>





subsection \<open>The fee rate of \<^verbatim>\<open>analyze_all_pools.py\<close> and \<^verbatim>\<open>analyze_pools.py\<close>\<close>


text \<open>The yield of the same two scripts, guarded by \<^verbatim>\<open>if tvl > 0\<close>.\<close>

definition all_pools_apy :: "pyfloat \<Rightarrow> pyfloat \<Rightarrow> pyfloat \<Rightarrow> error + pyfloat" where
  "all_pools_apy volume_24h tvl rate =
     (let fees_24h = py_mul volume_24h rate in
      if py_gt tvl (Fin 0)
      then ebind (py_div fees_24h tvl) (\<lambda>q. Inr (py_mul (py_mul q (Fin 365)) (Fin 100)))
      else Inr (Fin 0))"

subsection \<open>Sorting\<close>





section \<open>Example inputs\<close>

text \<open>A pool record of the listing with the given 24-hour volume and reserve.\<close>

definition pool_record :: "json \<Rightarrow> json \<Rightarrow> json" where
  "pool_record volume reserve =
     JDict [(''attributes'',
             JDict [(''volume_usd'', JDict [(''h24'', volume)]), (''reserve_in_usd'', reserve)])]"






text \<open>The text of a pool name between its first and its second \<^verbatim>\<open>/\<close>.\<close>

definition second_segment :: "string \<Rightarrow> string" where
  "second_segment name =
     takeWhile (\<lambda>c. c \<noteq> CHR ''/'') (tl (dropWhile (\<lambda>c. c \<noteq> CHR ''/'') name))"

text \<open>The union of the three allowlist sets.\<close>

definition allowlist :: "string list option \<Rightarrow> string set" where
  "allowlist file = STABLECOINS \<union> MAJOR_COINS \<union> load_top_100_symbols file"





section \<open>Verification\<close>

lemmas float_eval = py_float_str_def cstrip_def is_cspace_def split_sign_def upper_def upper_char_def
  parse_number_def parse_exponent_def is_digit_def digits_val_def digit_val_def scale10_def

lemma py_float_str_error: "py_float_str s = Inl e \<Longrightarrow> e = ValueError"
  by (auto simp: py_float_str_def Let_def split: option.splits prod.splits if_splits)

lemma subscript_error: "subscript x k = Inl e \<Longrightarrow> e = KeyError \<or> e = TypeError"
  by (cases x) (auto split: option.splits)

lemma py_float_error: "py_float x = Inl e \<Longrightarrow> e = ValueError \<or> e = TypeError \<or> e = OverflowError"
  by (cases x) (auto dest: py_float_str_error split: if_splits)

lemma py_float_overflow:
  "py_float x = Inl OverflowError \<longleftrightarrow> (\<exists>n. x = JInt n \<and> 2 ^ 1024 - 2 ^ 970 \<le> \<bar>n\<bar>)"
  by (cases x) (auto dest: py_float_str_error)

lemma float_volume_h24_error:
  "float_volume_h24 pool = Inl e \<Longrightarrow> e \<in> {KeyError, ValueError, TypeError, OverflowError}"
  by (auto simp: float_volume_h24_def ebind_def split: sum.splits
           dest: subscript_error py_float_error)

lemma float_reserve_in_usd_error:
  "float_reserve_in_usd pool = Inl e \<Longrightarrow> e \<in> {KeyError, ValueError, TypeError, OverflowError}"
  by (auto simp: float_reserve_in_usd_def ebind_def split: sum.splits
           dest: subscript_error py_float_error)

lemma py_eq_zero: "py_eq x (Fin 0) \<longleftrightarrow> x = Fin 0"
  by (auto simp: py_eq_def)

lemma py_div_defined: "y \<noteq> Fin 0 \<Longrightarrow> \<exists>z. py_div x y = Inr z"
  by (cases x; cases y) auto

lemma calculate_apy_24h_fin:
  assumes "float_volume_h24 pool = Inr (Fin v)" and "float_reserve_in_usd pool = Inr (Fin r)"
    and "r \<noteq> 0"
  shows "calculate_apy_24h pool (Some (Fin f)) = Inr (Fin (v * (f / 100) / r * 365 * 100))"
  using assms by (simp add: calculate_apy_24h_def try_except_def ebind_def py_eq_def)

lemma calculate_apy_24h_body_defined:
  assumes "float_volume_h24 pool = Inr v" and "float_reserve_in_usd pool = Inr r"
  shows "\<exists>y. calculate_apy_24h pool fee_tier = Inr y"
proof (cases "r = Fin 0 \<or> fee_tier = None")
  case True
  then show ?thesis using assms
    by (auto simp: calculate_apy_24h_def try_except_def ebind_def py_eq_zero)
next
  case False
  then obtain f where f: "fee_tier = Some f" and r: "r \<noteq> Fin 0" by auto
  obtain rate where rate: "py_div f (Fin 100) = Inr rate"
    using py_div_defined [of "Fin 100" f] by auto
  obtain z where z: "py_div (py_mul v rate) r = Inr z"
    using py_div_defined [OF r] by blast
  show ?thesis using assms f r
    by (simp add: calculate_apy_24h_def try_except_def ebind_def py_eq_zero rate z
             del: py_div.simps)
qed

lemma calculate_apy_24h_handled:
  assumes "float_volume_h24 pool = Inl e \<or> (\<exists>v. float_volume_h24 pool = Inr v \<and> float_reserve_in_usd pool = Inl e)"
    and "e \<in> {KeyError, ValueError, TypeError}"
  shows "calculate_apy_24h pool fee_tier = Inr (Fin 0)"
  using assms by (auto simp: calculate_apy_24h_def try_except_def ebind_def)

lemma calculate_apy_24h_raises:
  assumes "calculate_apy_24h pool fee_tier = Inl e"
  shows "e = OverflowError \<and> (float_volume_h24 pool = Inl OverflowError \<or> float_reserve_in_usd pool = Inl OverflowError)"
proof (cases "float_volume_h24 pool")
  case (Inl e1)
  then show ?thesis using assms float_volume_h24_error [OF Inl]
    by (auto simp: calculate_apy_24h_def try_except_def ebind_def split: if_splits)
next
  case (Inr v)
  show ?thesis
  proof (cases "float_reserve_in_usd pool")
    case (Inl e2)
    then show ?thesis using assms Inr float_reserve_in_usd_error [OF Inl]
      by (auto simp: calculate_apy_24h_def try_except_def ebind_def split: if_splits)
  next
    case r: (Inr r)
    then show ?thesis using calculate_apy_24h_body_defined [OF Inr r, of fee_tier] assms by auto
  qed
qed


lemma float_volume_h24_record: "float_volume_h24 (pool_record v r) = py_float v"
  by (simp add: float_volume_h24_def pool_record_def ebind_def)

lemma float_reserve_in_usd_record: "float_reserve_in_usd (pool_record v r) = py_float r"
  by (simp add: float_reserve_in_usd_def pool_record_def ebind_def)

lemma float_1000000: "py_float_str ''1000000'' = Inr (Fin 1000000)"
  by (simp add: float_eval)

lemma float_500000: "py_float_str ''500000'' = Inr (Fin 500000)"
  by (simp add: float_eval)

lemma float_minus_500000: "py_float_str ''-500000'' = Inr (Fin (- 500000))"
  by (simp add: float_eval)

lemma calculate_apy_30d_fin:
  assumes "r \<noteq> 0"
  shows "calculate_apy_30d (Some (Fin v)) (Some (Fin r)) (Some (Fin f))
         = Inr (Fin (v * (f / 100) / r * (365 / 30) * 100))"
  using assms by (simp add: calculate_apy_30d_def try_except_def ebind_def py_eq_def)

lemma calculate_apy_24h_guard:
  assumes "float_volume_h24 pool = Inr v" and "float_reserve_in_usd pool = Inr r"
    and "r = Fin 0 \<or> fee_tier = None"
  shows "calculate_apy_24h pool fee_tier = Inr (Fin 0)"
  using assms by (auto simp: calculate_apy_24h_def try_except_def ebind_def py_eq_zero)

lemma calculate_apy_30d_guard:
  assumes "avg_tvl_30d = Some (Fin 0) \<or> fee_tier = None \<or> volume_30d = None"
  shows "calculate_apy_30d volume_30d avg_tvl_30d fee_tier = Inr (Fin 0)"
  using assms by (auto simp: calculate_apy_30d_def try_except_def py_eq_zero)



text \<open>
  Claim C2. The claim asks for the result \<open>0\<close>, without a division, when the reserve is
  zero or negative. With the volume \<open>1,000,000\<close>, the reserve \<open>-500,000\<close> and the fee
  tier \<open>0.3\<close> the guard \<^verbatim>\<open>reserve_usd == 0\<close> lets the division happen:
  \<open>calculate_apy_24h\<close> returns \<open>-219\<close> and \<open>calculate_apy_30d\<close> returns \<open>-7.3\<close>, where
  the yield of \<^verbatim>\<open>analyze_all_pools.py\<close>, guarded by \<^verbatim>\<open>tvl > 0\<close>, returns \<open>0\<close>.
\<close>

theorem calculate_apy_negative_reserve:
  "calculate_apy_24h (pool_record (JStr ''1000000'') (JStr ''-500000'')) (Some (Fin (3 / 10)))
     = Inr (Fin (- 219))
   \<and> calculate_apy_30d (Some (Fin 1000000)) (Some (Fin (- 500000))) (Some (Fin (3 / 10)))
     = Inr (Fin (- (73 / 10)))
   \<and> all_pools_apy (Fin 1000000) (Fin (- 500000)) (Fin (3 / 1000)) = Inr (Fin 0)"
proof -
  let ?p = "pool_record (JStr ''1000000'') (JStr ''-500000'')"
  have v: "float_volume_h24 ?p = Inr (Fin 1000000)"
    by (simp add: float_volume_h24_record float_1000000)
  have r: "float_reserve_in_usd ?p = Inr (Fin (- 500000))"
    by (simp add: float_reserve_in_usd_record float_minus_500000)
  have a: "calculate_apy_24h ?p (Some (Fin (3 / 10))) = Inr (Fin (- 219))"
    using calculate_apy_24h_fin [OF v r, of "3 / 10"] by simp
  have b: "calculate_apy_30d (Some (Fin 1000000)) (Some (Fin (- 500000))) (Some (Fin (3 / 10)))
           = Inr (Fin (- (73 / 10)))"
    using calculate_apy_30d_fin [of "- 500000" 1000000 "3 / 10"] by simp
  have c: "all_pools_apy (Fin 1000000) (Fin (- 500000)) (Fin (3 / 1000)) = Inr (Fin 0)"
    by (simp add: all_pools_apy_def py_gt_def)
  from a b c show ?thesis by blast
qed



text \<open>
  Claim C10, as stated, fails: a record whose volume is the integer \<open>2^1024\<close> makes
  \<^verbatim>\<open>float\<close> raise \<^verbatim>\<open>OverflowError\<close>, which the \<^verbatim>\<open>except\<close> clause does not name.
\<close>

theorem calculate_apy_24h_overflow_counterexample:
  "calculate_apy_24h (pool_record (JInt (2 ^ 1024)) (JStr ''500000'')) (Some (Fin (3 / 10)))
   = Inl OverflowError"
  by (simp add: calculate_apy_24h_def try_except_def ebind_def float_volume_h24_record)

text \<open>
  Claim C10, amended. When the lookup or the conversion of the volume or of the reserve
  raises \<^verbatim>\<open>KeyError\<close>, \<^verbatim>\<open>ValueError\<close> or \<^verbatim>\<open>TypeError\<close> (a missing field, a string
  that is not a number, a value of the wrong type), the 24-hour calculator returns \<open>0\<close>.
  The only exception that reaches the caller is the \<^verbatim>\<open>OverflowError\<close> of one of the
  two conversions, which \<^verbatim>\<open>float\<close> raises exactly for an integer of magnitude at least
  \<open>2^1024 - 2^970\<close>.
\<close>

theorem calculate_apy_24h_exceptions:
  "(calculate_apy_24h pool fee_tier = Inl e \<longrightarrow>
      e = OverflowError
      \<and> (float_volume_h24 pool = Inl OverflowError \<or> float_reserve_in_usd pool = Inl OverflowError))
   \<and> (e \<in> {KeyError, ValueError, TypeError} \<and>
      (float_volume_h24 pool = Inl e
       \<or> (\<exists>v. float_volume_h24 pool = Inr v \<and> float_reserve_in_usd pool = Inl e)) \<longrightarrow>
      calculate_apy_24h pool fee_tier = Inr (Fin 0))
   \<and> (py_float x = Inl OverflowError \<longleftrightarrow> (\<exists>n. x = JInt n \<and> 2 ^ 1024 - 2 ^ 970 \<le> \<bar>n\<bar>))"
  using calculate_apy_24h_raises [of pool fee_tier e]
    calculate_apy_24h_handled [of pool e fee_tier] py_float_overflow [of x]
  by blast

theorem calculate_apy_24h_exceptions_witness:
  "KeyError \<in> {KeyError, ValueError, TypeError}
   \<and> float_volume_h24 (JDict []) = Inl KeyError
   \<and> calculate_apy_24h (JDict []) (Some (Fin (3 / 10))) = Inr (Fin 0)
   \<and> calculate_apy_24h (pool_record (JInt (2 ^ 1024)) (JStr ''500000'')) None = Inl OverflowError
   \<and> float_volume_h24 (pool_record (JInt (2 ^ 1024)) (JStr ''500000'')) = Inl OverflowError"
proof -
  have k: "float_volume_h24 (JDict []) = Inl KeyError"
    by (simp add: float_volume_h24_def ebind_def)
  have z: "calculate_apy_24h (JDict []) (Some (Fin (3 / 10))) = Inr (Fin 0)"
    using calculate_apy_24h_exceptions [of "JDict []" "Some (Fin (3 / 10))" KeyError] k by simp
  have o: "calculate_apy_24h (pool_record (JInt (2 ^ 1024)) (JStr ''500000'')) None
           = Inl OverflowError"
    by (simp add: calculate_apy_24h_def try_except_def ebind_def float_volume_h24_record)
  have "float_volume_h24 (pool_record (JInt (2 ^ 1024)) (JStr ''500000'')) = Inl OverflowError
        \<or> float_reserve_in_usd (pool_record (JInt (2 ^ 1024)) (JStr ''500000'')) = Inl OverflowError"
    using calculate_apy_24h_exceptions
            [of "pool_record (JInt (2 ^ 1024)) (JStr ''500000'')" None OverflowError] o
    by blast
  moreover have "float_reserve_in_usd (pool_record (JInt (2 ^ 1024)) (JStr ''500000''))
                 = Inr (Fin 500000)"
    by (simp add: float_reserve_in_usd_record float_500000)
  ultimately have v: "float_volume_h24 (pool_record (JInt (2 ^ 1024)) (JStr ''500000''))
                      = Inl OverflowError"
    by simp
  from k z o v show ?thesis by simp
qed

subsection \<open>Historical day data\<close>


lemma ebind_Inl: "ebind (Inl e) f = Inl e"
  by (simp add: ebind_def)























subsection \<open>Pool names\<close>



lemma py_split_on_unfold:
  "py_split_on c s =
     takeWhile (\<lambda>x. x \<noteq> c) s
     # (case dropWhile (\<lambda>x. x \<noteq> c) s of [] \<Rightarrow> [] | _ # r \<Rightarrow> py_split_on c r)"
proof (induction s)
  case Nil
  show ?case by simp
next
  case (Cons x xs)
  show ?case
  proof (cases "x = c")
    case True
    then show ?thesis by simp
  next
    case False
    then show ?thesis by (subst py_split_on.simps) (simp add: Cons.IH)
  qed
qed

lemma py_split_on_nonempty: "py_split_on c s \<noteq> []"
  by (subst py_split_on_unfold) simp

lemma dropWhile_neq_Cons:
  assumes "dropWhile (\<lambda>x. x \<noteq> c) s = y # r"
  shows "c \<in> set s"
proof (rule ccontr)
  assume "c \<notin> set s"
  then have "dropWhile (\<lambda>x. x \<noteq> c) s = []" by auto
  with assms show False by simp
qed

lemma py_split_on_short: "length (py_split_on c s) < 2 \<longleftrightarrow> c \<notin> set s"
proof (cases "dropWhile (\<lambda>x. x \<noteq> c) s")
  case Nil
  have "c \<notin> set s" using Nil by auto
  moreover have "py_split_on c s = [takeWhile (\<lambda>x. x \<noteq> c) s]"
    by (subst py_split_on_unfold) (simp only: Nil list.case)
  ultimately show ?thesis by simp
next
  case (Cons y r)
  have "c \<in> set s" using Cons by (rule dropWhile_neq_Cons)
  moreover have "py_split_on c s = takeWhile (\<lambda>x. x \<noteq> c) s # py_split_on c r"
    by (subst py_split_on_unfold) (simp only: Cons list.case)
  moreover have "py_split_on c r \<noteq> []" by (rule py_split_on_nonempty)
  ultimately show ?thesis by (cases "py_split_on c r") simp_all
qed

lemma py_split_on_first: "py_split_on c s ! 0 = takeWhile (\<lambda>x. x \<noteq> c) s"
  by (subst py_split_on_unfold) simp

lemma py_split_on_second:
  assumes "c \<in> set s"
  shows "py_split_on c s ! Suc 0
         = takeWhile (\<lambda>x. x \<noteq> c) (tl (dropWhile (\<lambda>x. x \<noteq> c) s))"
proof (cases "dropWhile (\<lambda>x. x \<noteq> c) s")
  case Nil
  then have "c \<notin> set s" by auto
  with assms show ?thesis by simp
next
  case (Cons y r)
  have "py_split_on c s = takeWhile (\<lambda>x. x \<noteq> c) s # py_split_on c r"
    by (subst py_split_on_unfold) (simp only: Cons list.case)
  then have "py_split_on c s ! Suc 0 = py_split_on c r ! 0" by simp
  then show ?thesis by (simp add: py_split_on_first Cons)
qed

text \<open>The parser in terms of the first two segments of the name.\<close>

lemma parse_pool_name_eq:
  "parse_pool_name name =
     (if CHR ''/'' \<notin> set name then Inr (None, None, None)
      else let toks = py_split_ws (py_strip (second_segment name))
           in if length toks < 2 then Inr (None, None, None)
              else Inr (Some (upper (py_strip (takeWhile (\<lambda>c. c \<noteq> CHR ''/'') name))),
                        Some (upper (toks ! 0)),
                        (case py_float_str (replace_percent (toks ! 1)) of
                           Inr x \<Rightarrow> Some x | Inl e \<Rightarrow> None)))"
proof (cases "CHR ''/'' \<in> set name")
  case False
  then show ?thesis by (simp add: parse_pool_name_def py_split_on_short)
next
  case True
  then have l: "\<not> length (py_split_on CHR ''/'' name) < 2" by (simp add: py_split_on_short)
  have e: "\<And>s. (case py_float_str s of Inl e \<Rightarrow> if e = ValueError then Inr (a, b, None) else Inl e
                  | Inr x \<Rightarrow> Inr (a, b, Some x))
               = Inr (a, b, case py_float_str s of Inr x \<Rightarrow> Some x | Inl e \<Rightarrow> None)" for a b
    by (auto split: sum.splits dest: py_float_str_error)
  show ?thesis using True l
    by (simp add: parse_pool_name_def Let_def py_split_on_first py_split_on_second [OF True]
                  second_segment_def e)
qed

lemmas name_eval = parse_pool_name_def py_strip_def is_space_def replace_percent_def

lemma is_allowed_token_allowlist: "is_allowed_token file s \<longleftrightarrow> upper s \<in> allowlist file"
  by (simp add: is_allowed_token_def allowlist_def Let_def)





lemma parse_pool_name_cases:
  "parse_pool_name name = Inr (None, None, None)
   \<or> (\<exists>a b fee. parse_pool_name name = Inr (Some a, Some b, fee))"
  by (simp add: parse_pool_name_eq Let_def)



text \<open>
  Claim C6. A pool is eligible exactly when its name parses into two non-empty token
  symbols whose upper-cased forms both belong to the union of the stablecoins, the major
  coins and the top-100 symbols. The check is a function of the name and of the snapshot
  only: it returns a truth value and changes nothing.
\<close>

theorem is_allowed_pool_iff:
  "is_allowed_pool file name =
     Inr (\<exists>a b fee. parse_pool_name name = Inr (Some a, Some b, fee)
                    \<and> a \<noteq> [] \<and> b \<noteq> []
                    \<and> upper a \<in> allowlist file \<and> upper b \<in> allowlist file)"
proof -
  from parse_pool_name_cases [of name] show ?thesis
  proof
    assume "parse_pool_name name = Inr (None, None, None)"
    then show ?thesis by (simp add: is_allowed_pool_def ebind_def falsy_token_def)
  next
    assume "\<exists>a b fee. parse_pool_name name = Inr (Some a, Some b, fee)"
    then obtain a b fee where "parse_pool_name name = Inr (Some a, Some b, fee)" by blast
    then show ?thesis
      by (auto simp: is_allowed_pool_def ebind_def falsy_token_def is_allowed_token_allowlist)
  qed
qed

theorem is_allowed_pool_iff_witness:
  "is_allowed_pool None ''weth / usdc 0.05%'' = Inr True
   \<and> (\<exists>a b fee. parse_pool_name ''weth / usdc 0.05%'' = Inr (Some a, Some b, fee)
                \<and> a \<noteq> [] \<and> b \<noteq> []
                \<and> upper a \<in> allowlist None \<and> upper b \<in> allowlist None)
   \<and> is_allowed_pool None ''PEPE / USDC 0.3%'' = Inr False
   \<and> is_allowed_pool (Some [''pepe'']) ''PEPE / USDC 0.3%'' = Inr True
   \<and> is_allowed_pool None ''XAUt / WETH'' = Inr False"
proof -
  have p: "parse_pool_name ''weth / usdc 0.05%''
           = Inr (Some ''WETH'', Some ''USDC'', Some (Fin (5 / 100)))"
    by (simp add: name_eval float_eval)
  have a: "is_allowed_pool None ''weth / usdc 0.05%'' = Inr True"
    by (simp add: p is_allowed_pool_def ebind_def falsy_token_def is_allowed_token_def
                  STABLECOINS_def MAJOR_COINS_def load_top_100_symbols_def upper_def upper_char_def)
  have e: "\<exists>a b fee. parse_pool_name ''weth / usdc 0.05%'' = Inr (Some a, Some b, fee)
                \<and> a \<noteq> [] \<and> b \<noteq> []
                \<and> upper a \<in> allowlist None \<and> upper b \<in> allowlist None"
    using is_allowed_pool_iff [of None "''weth / usdc 0.05%''"] a by simp
  have q: "parse_pool_name ''PEPE / USDC 0.3%''
           = Inr (Some ''PEPE'', Some ''USDC'', Some (Fin (3 / 10)))"
    by (simp add: name_eval float_eval)
  have b: "is_allowed_pool None ''PEPE / USDC 0.3%'' = Inr False"
    by (simp add: q is_allowed_pool_def ebind_def falsy_token_def is_allowed_token_def
                  STABLECOINS_def MAJOR_COINS_def load_top_100_symbols_def upper_def upper_char_def)
  have c: "is_allowed_pool (Some [''pepe'']) ''PEPE / USDC 0.3%'' = Inr True"
    by (simp add: q is_allowed_pool_def ebind_def falsy_token_def is_allowed_token_def
                  STABLECOINS_def MAJOR_COINS_def load_top_100_symbols_def upper_def upper_char_def)
  have r: "parse_pool_name ''XAUt / WETH'' = Inr (None, None, None)"
    by (simp add: name_eval float_eval)
  have d: "is_allowed_pool None ''XAUt / WETH'' = Inr False"
    by (simp add: r is_allowed_pool_def ebind_def falsy_token_def)
  from a e b c d show ?thesis by blast
qed

subsection \<open>Ranking\<close>

lemma py_lt_asym: "py_lt a b \<Longrightarrow> \<not> py_lt b a"
  by (cases a; cases b) auto












subsection \<open>Fee tiers\<close>




























end
